theory Spec2Isabelle
  imports Complex_Main "HOL-Library.Sublist"
begin

section \<open>JavaScript values as the store sees them\<close>

text \<open>
  The traffic store (\<^verbatim>\<open>src/stores/trafficStore.js\<close>) receives the result of
  \<^verbatim>\<open>JSON.parse\<close> and only ever reads properties of it, compares identifiers with
  \<^verbatim>\<open>===\<close> / \<^verbatim>\<open>!==\<close> and tests one flag for truthiness. A property value is
  therefore a primitive, or a reference to a nested object or array whose content the
  store never inspects. \<^verbatim>\<open>JSON.parse\<close> cannot produce \<^verbatim>\<open>NaN\<close>, so strict equality
  of two property values is equality of the values below (two references are equal
  exactly when they are the same object).
\<close>

datatype jsval =
    JUndefined
  | JNull
  | JBool bool
  | JNum real
  | JStr string
  | JRef nat

text \<open>An object is its list of own properties; reading a missing one gives \<^verbatim>\<open>undefined\<close>.\<close>

type_synonym jsobj = "(string \<times> jsval) list"

definition getprop :: "jsobj \<Rightarrow> string \<Rightarrow> jsval" where
  "getprop obj k = (case map_of obj k of None \<Rightarrow> JUndefined | Some v \<Rightarrow> v)"

text \<open>\<^verbatim>\<open>{ ...obj, k: v }\<close>: the property keeps its place when present, else it is added last.\<close>

fun set_prop :: "string \<Rightarrow> jsval \<Rightarrow> jsobj \<Rightarrow> jsobj" where
  "set_prop k v [] = [(k, v)]"
| "set_prop k v (p # ps) = (if fst p = k then (k, v) # ps else p # set_prop k v ps)"

text \<open>The condition of \<^verbatim>\<open>c ? a : b\<close>.\<close>

fun truthy :: "jsval \<Rightarrow> bool" where
  "truthy JUndefined = False"
| "truthy JNull = False"
| "truthy (JBool b) = b"
| "truthy (JNum x) = (x \<noteq> 0)"
| "truthy (JStr s) = (s \<noteq> [])"
| "truthy (JRef r) = True"

text \<open>
  What \<^verbatim>\<open>JSON.parse\<close> returns: \<^verbatim>\<open>null\<close>, an object, or something else (a number,
  string, boolean or array), on which every property the store reads is \<^verbatim>\<open>undefined\<close>.
\<close>

datatype jsdata = DNull | DOther | DObject jsobj

datatype error = SyntaxError | TypeError

section \<open>The store\<close>

text \<open>The entry that \<^verbatim>\<open>vehicle_update\<close> builds: \<^verbatim>\<open>{ id, position: [lat, lng], speed, type }\<close>.\<close>

record vehicle =
  vid :: jsval
  position :: "jsval \<times> jsval"
  speed :: jsval
  vtype :: string

record store =
  vehicles :: "vehicle list"
  trafficLights :: "jsobj list"
  emergencies :: "jsobj list"
  congestion :: real
  avgSpeed :: real
  isSimulationActive :: bool

text \<open>
  The two \<^verbatim>\<open>Howl\<close> objects of the store are never replaced; what happens to them is the
  sequence of calls made on them. Those calls and \<^verbatim>\<open>console.error\<close> are the effects
  of an action, returned beside the new store in the order they happen.
\<close>

datatype howl = sirenSound | trafficSound

datatype effect = play howl | stop howl | console_error string

definition initial :: store where
  "initial = \<lparr> vehicles = [], trafficLights = [], emergencies = [],
               congestion = 0, avgSpeed = 45, isSimulationActive = False \<rparr>"

abbreviation vehicle_entry :: "jsobj \<Rightarrow> vehicle" where
  "vehicle_entry data \<equiv>
     \<lparr> vid = getprop data ''id'',
       position = (getprop data ''lat'', getprop data ''lng''),
       speed = getprop data ''speed'',
       vtype = (if truthy (getprop data ''isEmergency'') then ''emergency'' else ''normal'') \<rparr>"

text \<open>
  \<^verbatim>\<open>updateState(data)\<close>: \<^verbatim>\<open>switch (data.type)\<close> with three cases and no default.
  Reading \<^verbatim>\<open>data.type\<close> of \<^verbatim>\<open>null\<close> throws a TypeError before anything is changed.
\<close>

fun updateState :: "jsdata \<Rightarrow> store \<Rightarrow> error + (store \<times> effect list)" where
  "updateState DNull s = Inl TypeError"
| "updateState DOther s = Inr (s, [])"
| "updateState (DObject data) s =
     (if getprop data ''type'' = JStr ''vehicle_update'' then
        Inr (s\<lparr> vehicles :=
                   filter (\<lambda>v. vid v \<noteq> getprop data ''id'') (vehicles s) @ [vehicle_entry data] \<rparr>,
             [])
      else if getprop data ''type'' = JStr ''traffic_light'' then
        Inr (s\<lparr> trafficLights :=
                   map (\<lambda>light. if getprop light ''id'' = getprop data ''id''
                                 then set_prop ''state'' (getprop data ''state'') light
                                 else light)
                       (trafficLights s) \<rparr>,
             [])
      else if getprop data ''type'' = JStr ''emergency_start'' then
        Inr (s\<lparr> emergencies := emergencies s @ [data] \<rparr>, [play sirenSound])
      else Inr (s, []))"

definition toggleSimulation :: "store \<Rightarrow> store \<times> effect list" where
  "toggleSimulation s =
     (let isActive = \<not> isSimulationActive s
      in (s\<lparr> isSimulationActive := isActive \<rparr>,
          [if isActive then play trafficSound else stop trafficSound]))"

section \<open>The message handlers\<close>

text \<open>
  Both handlers run \<^verbatim>\<open>JSON.parse(event.data)\<close> and \<^verbatim>\<open>updateState(data)\<close> inside one
  \<^verbatim>\<open>try\<close>, and log in the \<^verbatim>\<open>catch\<close>. \<^verbatim>\<open>JSON.parse\<close> belongs to the runtime, so the
  handler takes its outcome on the payload: \<open>Inl SyntaxError\<close> when it throws.
\<close>

definition ws_onmessage :: "error + jsdata \<Rightarrow> store \<Rightarrow> store \<times> effect list" where
  "ws_onmessage parsed s =
     (case parsed of
        Inl e \<Rightarrow> (s, [console_error ''Invalid message format:''])
      | Inr data \<Rightarrow>
          (case updateState data s of
             Inl e \<Rightarrow> (s, [console_error ''Invalid message format:''])
           | Inr r \<Rightarrow> r))"

definition useWebSocket_onmessage :: "error + jsdata \<Rightarrow> store \<Rightarrow> store \<times> effect list" where
  "useWebSocket_onmessage parsed s =
     (case parsed of
        Inl e \<Rightarrow> (s, [console_error ''WebSocket message error:''])
      | Inr data \<Rightarrow>
          (case updateState data s of
             Inl e \<Rightarrow> (s, [console_error ''WebSocket message error:''])
           | Inr r \<Rightarrow> r))"

text \<open>Messages are handled one at a time, in the order the socket delivers them.\<close>

fun deliver :: "(error + jsdata) list \<Rightarrow> store \<Rightarrow> store \<times> effect list" where
  "deliver [] s = (s, [])"
| "deliver (m # ms) s =
     (let (s1, fx1) = ws_onmessage m s;
          (s2, fx2) = deliver ms s1
      in (s2, fx1 @ fx2))"

text \<open>Whether a message is an incident start, as the \<^verbatim>\<open>switch\<close> sees it.\<close>

definition is_emergency_start :: "error + jsdata \<Rightarrow> bool" where
  "is_emergency_start m =
     (case m of
        Inr (DObject data) \<Rightarrow> getprop data ''type'' = JStr ''emergency_start''
      | _ \<Rightarrow> False)"

text \<open>
  A payload delivered again is parsed again (\<^verbatim>\<open>JSON.parse(event.data)\<close> runs in every call
  of the handler), and \<^verbatim>\<open>JSON.parse\<close> builds new arrays and objects each time. The second
  parse of a payload has the same properties with the same primitive values and, in place
  of each reference \<open>r\<close> of the first parse, the reference \<open>f r\<close>; in the runtime \<open>f r\<close>
  is a reference that nothing held before.
\<close>

fun primitive :: "jsval \<Rightarrow> bool" where
  "primitive (JRef r) = False"
| "primitive v = True"

fun reparse_val :: "(nat \<Rightarrow> nat) \<Rightarrow> jsval \<Rightarrow> jsval" where
  "reparse_val f (JRef r) = JRef (f r)"
| "reparse_val f v = v"

fun reparse :: "(nat \<Rightarrow> nat) \<Rightarrow> error + jsdata \<Rightarrow> error + jsdata" where
  "reparse f (Inr (DObject data)) = Inr (DObject (map (\<lambda>p. (fst p, reparse_val f (snd p))) data))"
| "reparse f m = m"

text \<open>
  The identifier of a message matters to the store in the cases \<^verbatim>\<open>vehicle_update\<close> and
  \<^verbatim>\<open>traffic_light\<close>, which compare it with \<^verbatim>\<open>!==\<close> and \<^verbatim>\<open>===\<close>: there it is primitive
  when it is no array or object.
\<close>

definition primitive_id :: "error + jsdata \<Rightarrow> bool" where
  "primitive_id m =
     (case m of
        Inr (DObject data) \<Rightarrow>
          primitive (getprop data ''id'')
          \<or> (getprop data ''type'' \<noteq> JStr ''vehicle_update'' \<and> getprop data ''type'' \<noteq> JStr ''traffic_light'')
      | _ \<Rightarrow> True)"

text \<open>A payload none of whose property values is an array or object.\<close>

definition primitive_payload :: "error + jsdata \<Rightarrow> bool" where
  "primitive_payload m =
     (case m of
        Inr (DObject data) \<Rightarrow> list_all (\<lambda>p. primitive (snd p)) data
      | _ \<Rightarrow> True)"

text \<open>
  The store changes through its two actions only. A call of \<^verbatim>\<open>updateState\<close> that throws
  has changed nothing. The reachable states are the \<open>reach acts\<close>.
\<close>

datatype action = UpdateState jsdata | ToggleSimulation

fun step :: "action \<Rightarrow> store \<Rightarrow> store" where
  "step (UpdateState data) s = (case updateState data s of Inl e \<Rightarrow> s | Inr r \<Rightarrow> fst r)"
| "step ToggleSimulation s = fst (toggleSimulation s)"

definition reach :: "action list \<Rightarrow> store" where
  "reach acts = fold step acts initial"

section \<open>Example messages\<close>

text \<open>
  A vehicle upsert and an incident start or end as the server would send them, each
  carrying an arrival index \<^verbatim>\<open>idx\<close>. No recognised message type ends an incident; the
  end message carries the tag \<^verbatim>\<open>emergency_end\<close>.
\<close>

definition upsert :: "real \<Rightarrow> real \<times> real \<Rightarrow> real \<Rightarrow> real \<Rightarrow> jsobj" where
  "upsert i pos sp idx =
     [(''type'', JStr ''vehicle_update''), (''id'', JNum i),
      (''lat'', JNum (fst pos)), (''lng'', JNum (snd pos)),
      (''speed'', JNum sp), (''idx'', JNum idx)]"

definition incident :: "string \<Rightarrow> string \<Rightarrow> real \<Rightarrow> jsobj" where
  "incident tag i idx = [(''type'', JStr tag), (''id'', JStr i), (''idx'', JNum idx)]"

text \<open>A payload that parses to the object \<open>data\<close>.\<close>

abbreviation received :: "jsobj \<Rightarrow> error + jsdata" where
  "received data \<equiv> Inr (DObject data)"

section \<open>Shared facts about objects, handlers and reachable states\<close>

lemma getprop_set_prop: "getprop (set_prop k v obj) k' = (if k' = k then v else getprop obj k')"
  by (induction obj) (auto simp: getprop_def)

lemma set_prop_over: "set_prop k v' (set_prop k v obj) = set_prop k v' obj"
  by (induction obj) auto

lemma reparse_val_primitive: "primitive v \<Longrightarrow> reparse_val f v = v"
  by (cases v) simp_all

lemma reparse_val_JStr: "(reparse_val f v = JStr t) = (v = JStr t)"
  by (cases v) simp_all

lemma getprop_reparse:
  "getprop (map (\<lambda>p. (fst p, reparse_val f (snd p))) data) k = reparse_val f (getprop data k)"
  by (induction data) (auto simp: getprop_def)

lemma reparse_primitive_payload: "primitive_payload m \<Longrightarrow> reparse f m = m"
proof (cases m)
  case (Inl e)
  then show ?thesis by simp
next
  case (Inr d)
  assume p: "primitive_payload m"
  show ?thesis
  proof (cases d)
    case (DObject data)
    with p Inr have "list_all (\<lambda>p. primitive (snd p)) data"
      by (simp add: primitive_payload_def)
    then have "map (\<lambda>p. (fst p, reparse_val f (snd p))) data = data"
      by (induction data) (simp_all add: reparse_val_primitive)
    with Inr DObject show ?thesis by simp
  qed (simp_all add: Inr)
qed

lemma updateState_unrecognised:
  assumes "getprop data ''type'' \<noteq> JStr ''vehicle_update''"
    and "getprop data ''type'' \<noteq> JStr ''traffic_light''"
    and "getprop data ''type'' \<noteq> JStr ''emergency_start''"
  shows "updateState (DObject data) s = Inr (s, [])"
  using assms by simp

text \<open>A \<^verbatim>\<open>null\<close> payload makes \<^verbatim>\<open>updateState\<close> throw; the handler catches and logs it.\<close>

lemma null_message_caught:
  "updateState DNull s = Inl TypeError
   \<and> ws_onmessage (Inr DNull) s = (s, [console_error ''Invalid message format:''])"
  by (simp add: ws_onmessage_def)

lemma deliver_snoc:
  "deliver (ms @ [m]) s =
     (let (s1, fx1) = deliver ms s; (s2, fx2) = ws_onmessage m s1 in (s2, fx1 @ fx2))"
  by (induction ms arbitrary: s) (simp_all add: split_beta Let_def)

lemma fst_deliver_snoc: "fst (deliver (ms @ [m]) s) = fst (ws_onmessage m (fst (deliver ms s)))"
  by (simp add: deliver_snoc split_beta Let_def)

lemma vehicle_update_entry:
  assumes "getprop data ''type'' = JStr ''vehicle_update''"
  shows "filter (\<lambda>v. vid v = getprop data ''id'') (vehicles (fst (ws_onmessage (received data) s)))
         = [vehicle_entry data]"
  using assms by (simp add: ws_onmessage_def filter_empty_conv)

lemma step_vehicle_update:
  assumes "getprop data ''type'' = JStr ''vehicle_update''"
  shows "filter (\<lambda>v. vid v = getprop data ''id'') (vehicles (step (UpdateState (DObject data)) s))
         = [vehicle_entry data]"
  using assms by (simp add: filter_empty_conv)

lemma fold_step_invariant:
  assumes "P s" and "\<And>a t. P t \<Longrightarrow> P (step a t)"
  shows "P (fold step acts s)"
  using assms(1) by (induction acts arbitrary: s) (simp_all add: assms(2))

text \<open>No action changes the identifiers of the traffic lights, nor how many there are.\<close>

lemma step_lights_ids:
  "map (\<lambda>light. getprop light ''id'') (trafficLights (step a s))
   = map (\<lambda>light. getprop light ''id'') (trafficLights s)"
proof (cases a)
  case ToggleSimulation
  then show ?thesis by (simp add: toggleSimulation_def Let_def)
next
  case (UpdateState d)
  then show ?thesis by (cases d) (simp_all add: getprop_set_prop)
qed

lemma reach_trafficLights: "trafficLights (reach acts) = []"
proof -
  have "map (\<lambda>light. getprop light ''id'') (trafficLights (fold step acts initial)) = []"
    by (rule fold_step_invariant) (simp_all add: initial_def step_lights_ids)
  then show ?thesis by (simp add: reach_def)
qed

lemma step_vehicles_distinct:
  assumes "distinct (map vid (vehicles s))"
  shows "distinct (map vid (vehicles (step a s)))"
proof (cases a)
  case ToggleSimulation
  with assms show ?thesis by (simp add: toggleSimulation_def Let_def)
next
  case (UpdateState d)
  with assms show ?thesis
    by (cases d) (auto simp: distinct_map_filter)
qed

lemma reach_vehicles_distinct: "distinct (map vid (vehicles (reach acts)))"
  unfolding reach_def
  by (rule fold_step_invariant) (simp_all add: initial_def step_vehicles_distinct)

text \<open>The list of emergencies only ever grows at its end.\<close>

lemma updateState_emergencies_prefix:
  "updateState d s = Inr (s', fx) \<Longrightarrow> prefix (emergencies s) (emergencies s')"
  by (cases d) (auto split: if_splits)

lemma ws_onmessage_emergencies_prefix:
  "prefix (emergencies s) (emergencies (fst (ws_onmessage m s)))"
proof (cases m)
  case (Inl e)
  then show ?thesis by (simp add: ws_onmessage_def)
next
  case (Inr d)
  show ?thesis
  proof (cases "updateState d s")
    case (Inl e)
    with Inr show ?thesis by (simp add: ws_onmessage_def)
  next
    case inr: (Inr r)
    with Inr updateState_emergencies_prefix [of d s "fst r" "snd r"] show ?thesis
      by (simp add: ws_onmessage_def)
  qed
qed

lemma deliver_emergencies_prefix:
  "prefix (emergencies s) (emergencies (fst (deliver ms s)))"
proof (induction ms arbitrary: s)
  case Nil
  show ?case by simp
next
  case (Cons m ms)
  have "prefix (emergencies s) (emergencies (fst (ws_onmessage m s)))"
    by (rule ws_onmessage_emergencies_prefix)
  also have "prefix \<dots> (emergencies (fst (deliver ms (fst (ws_onmessage m s)))))"
    by (rule Cons.IH)
  finally show ?case by (simp add: split_beta)
qed

text \<open>The calls on the siren that one message causes.\<close>

lemma snd_ws_onmessage_siren:
  "filter (\<lambda>e. e = play sirenSound \<or> e = stop sirenSound) (snd (ws_onmessage m s))
   = (if is_emergency_start m then [play sirenSound] else [])"
proof (cases m)
  case (Inl e)
  then show ?thesis by (simp add: ws_onmessage_def is_emergency_start_def)
next
  case (Inr d)
  then show ?thesis by (cases d) (simp_all add: ws_onmessage_def is_emergency_start_def)
qed

lemma traffic_light_no_match:
  assumes "getprop data ''type'' = JStr ''traffic_light''"
    and "\<forall>light \<in> set (trafficLights s). getprop light ''id'' \<noteq> getprop data ''id''"
  shows "updateState (DObject data) s = Inr (s, [])"
proof -
  have "map (\<lambda>light. if getprop light ''id'' = getprop data ''id''
                      then set_prop ''state'' (getprop data ''state'') light else light)
          (trafficLights s) = trafficLights s"
    using assms(2) by (simp add: map_idI)
  with assms(1) show ?thesis by simp
qed

text \<open>An object that is no incident start, delivered and then delivered again.\<close>

lemma redelivery_object:
  assumes "getprop data ''type'' \<noteq> JStr ''emergency_start''"
    and "primitive (getprop data ''id'')
         \<or> (getprop data ''type'' \<noteq> JStr ''vehicle_update'' \<and> getprop data ''type'' \<noteq> JStr ''traffic_light'')"
  shows "fst (ws_onmessage (reparse f (received data)) (fst (ws_onmessage (received data) s)))
         = fst (ws_onmessage (reparse f (received data)) s)"
proof -
  consider (v) "getprop data ''type'' = JStr ''vehicle_update''"
    | (t) "getprop data ''type'' = JStr ''traffic_light''"
    | (u) "getprop data ''type'' \<noteq> JStr ''vehicle_update''" "getprop data ''type'' \<noteq> JStr ''traffic_light''"
    by blast
  then show ?thesis
  proof cases
    case v
    with assms(2) have "reparse_val f (getprop data ''id'') = getprop data ''id''"
      by (auto simp: reparse_val_primitive)
    with v show ?thesis
      by (simp add: ws_onmessage_def getprop_reparse filter_empty_conv)
  next
    case t
    with assms(2) have "reparse_val f (getprop data ''id'') = getprop data ''id''"
      by (auto simp: reparse_val_primitive)
    with t show ?thesis
      by (simp add: ws_onmessage_def getprop_reparse getprop_set_prop set_prop_over)
  next
    case u
    with assms(1) show ?thesis
      by (simp add: ws_onmessage_def getprop_reparse reparse_val_JStr)
  qed
qed

section \<open>Vehicle upserts: the last one delivered is stored\<close>

text \<open>
  C1, as the code has it. \<^verbatim>\<open>updateState\<close> reads no arrival index: a \<^verbatim>\<open>vehicle_update\<close>
  removes the entries with the event's identifier and appends the entry built from the event.
  So after any non-empty sequence of vehicle upserts for one identifier, delivered to any
  store, the one stored entry for that identifier is the entry of the event delivered last,
  whatever \<^verbatim>\<open>idx\<close> the events carry.
\<close>

theorem last_delivered_wins:
  assumes "objs \<noteq> []"
    and "\<forall>data \<in> set objs. getprop data ''type'' = JStr ''vehicle_update'' \<and> getprop data ''id'' = i"
  shows "filter (\<lambda>v. vid v = i) (vehicles (fst (deliver (map received objs) s)))
         = [vehicle_entry (last objs)]"
proof (cases objs rule: rev_cases)
  case Nil
  with assms(1) show ?thesis by simp
next
  case (snoc front data)
  with assms(2) have t: "getprop data ''type'' = JStr ''vehicle_update''" and i: "getprop data ''id'' = i"
    by simp_all
  show ?thesis
    using vehicle_update_entry [OF t, of "fst (deliver (map received front) s)"]
    by (simp add: snoc fst_deliver_snoc i)
qed

text \<open>The theorem at the scenario of the specification: the stale upsert, delivered last, is stored.\<close>

theorem last_delivered_wins_witness:
  "filter (\<lambda>v. vid v = JNum 7)
     (vehicles (fst (deliver (map received [upsert 7 (0, 0) 10 1, upsert 7 (1, 1) 12 3, upsert 7 (9, 9) 1 2]) initial)))
   = [\<lparr> vid = JNum 7, position = (JNum 9, JNum 9), speed = JNum 1, vtype = ''normal'' \<rparr>]"
  using last_delivered_wins [of "[upsert 7 (0, 0) 10 1, upsert 7 (1, 1) 12 3, upsert 7 (9, 9) 1 2]" "JNum 7" initial]
  by (simp add: upsert_def getprop_def)

text \<open>
  C1 as the specification states it fails: after the upserts with arrival indices 1, 3 and
  then the stale 2, the store holds position (9, 9) and speed 1, not position (1, 1) and
  speed 12.
\<close>

theorem stale_upsert_counterexample:
  "vehicles (fst (deliver [received (upsert 7 (0, 0) 10 1), received (upsert 7 (1, 1) 12 3),
                           received (upsert 7 (9, 9) 1 2)] initial))
   = [\<lparr> vid = JNum 7, position = (JNum 9, JNum 9), speed = JNum 1, vtype = ''normal'' \<rparr>]
   \<and> \<lparr> vid = JNum 7, position = (JNum 9, JNum 9), speed = JNum 1, vtype = ''normal'' \<rparr>
       \<noteq> \<lparr> vid = JNum 7, position = (JNum 1, JNum 1), speed = JNum 12, vtype = ''normal'' \<rparr>"
  by (simp add: upsert_def getprop_def ws_onmessage_def initial_def)

section \<open>No two entries with one identifier\<close>

text \<open>
  C2, as the code has it, for vehicles and traffic lights. In every reachable state the
  vehicles have pairwise different identifiers, and so have the traffic lights; every action
  keeps both properties from any store that has them; and a \<^verbatim>\<open>vehicle_update\<close> leaves
  exactly one entry with its identifier, the one built from the event.
\<close>

theorem vehicles_lights_no_duplicates:
  "distinct (map vid (vehicles (reach acts)))
   \<and> distinct (map (\<lambda>light. getprop light ''id'') (trafficLights (reach acts)))
   \<and> (distinct (map vid (vehicles s)) \<longrightarrow> distinct (map vid (vehicles (step a s))))
   \<and> (distinct (map (\<lambda>light. getprop light ''id'') (trafficLights s))
        \<longrightarrow> distinct (map (\<lambda>light. getprop light ''id'') (trafficLights (step a s))))
   \<and> (getprop data ''type'' = JStr ''vehicle_update''
        \<longrightarrow> filter (\<lambda>v. vid v = getprop data ''id'') (vehicles (step (UpdateState (DObject data)) s))
            = [vehicle_entry data])"
  using step_vehicle_update [of data s]
  by (simp add: reach_vehicles_distinct reach_trafficLights step_vehicles_distinct step_lights_ids
        del: step.simps)

theorem vehicles_lights_no_duplicates_witness:
  "vehicles (step (UpdateState (DObject (upsert 7 (9, 9) 1 2)))
       (reach [UpdateState (DObject (upsert 7 (0, 0) 10 1)), UpdateState (DObject (upsert 8 (1, 1) 12 3))]))
   = [\<lparr> vid = JNum 8, position = (JNum 1, JNum 1), speed = JNum 12, vtype = ''normal'' \<rparr>,
      \<lparr> vid = JNum 7, position = (JNum 9, JNum 9), speed = JNum 1, vtype = ''normal'' \<rparr>]
   \<and> distinct (map vid (vehicles (step (UpdateState (DObject (upsert 7 (9, 9) 1 2)))
       (reach [UpdateState (DObject (upsert 7 (0, 0) 10 1)), UpdateState (DObject (upsert 8 (1, 1) 12 3))]))))
   \<and> filter (\<lambda>v. vid v = JNum 7) (vehicles (step (UpdateState (DObject (upsert 7 (9, 9) 1 2)))
       (reach [UpdateState (DObject (upsert 7 (0, 0) 10 1)), UpdateState (DObject (upsert 8 (1, 1) 12 3))])))
     = [\<lparr> vid = JNum 7, position = (JNum 9, JNum 9), speed = JNum 1, vtype = ''normal'' \<rparr>]"
  using vehicles_lights_no_duplicates
    [of "[UpdateState (DObject (upsert 7 (0, 0) 10 1)), UpdateState (DObject (upsert 8 (1, 1) 12 3))]"
        "reach [UpdateState (DObject (upsert 7 (0, 0) 10 1)), UpdateState (DObject (upsert 8 (1, 1) 12 3))]"
        "UpdateState (DObject (upsert 7 (9, 9) 1 2))" "upsert 7 (9, 9) 1 2"]
  by (simp add: reach_def upsert_def getprop_def initial_def)

text \<open>
  C2 as the specification states it fails for the emergencies: two \<^verbatim>\<open>emergency_start\<close>
  events for the identifier \<^verbatim>\<open>inc-1\<close> leave two entries with that identifier.
\<close>

theorem emergency_duplicate_counterexample:
  "map (\<lambda>e. getprop e ''id'')
     (emergencies (reach [UpdateState (DObject (incident ''emergency_start'' ''inc-1'' 5)),
                          UpdateState (DObject (incident ''emergency_start'' ''inc-1'' 6))]))
   = [JStr ''inc-1'', JStr ''inc-1'']"
  by (simp add: reach_def incident_def getprop_def initial_def)

section \<open>Incidents are never removed\<close>

text \<open>
  C3, as the code has it. \<^verbatim>\<open>updateState\<close> has no case that ends an incident. An event
  whose tag is none of the three recognised ones, as an incident end is, leaves the store
  as it was, whether its identifier is stored or not; and whatever is applied, one event
  or a sequence of messages, the emergencies stored before are still there, in order, at
  the front of the list.
\<close>

theorem incidents_never_removed:
  "(getprop data ''type'' \<notin> {JStr ''vehicle_update'', JStr ''traffic_light'', JStr ''emergency_start''}
      \<longrightarrow> updateState (DObject data) s = Inr (s, []))
   \<and> (updateState d s = Inr (s', fx) \<longrightarrow> prefix (emergencies s) (emergencies s'))
   \<and> prefix (emergencies s) (emergencies (fst (deliver ms s)))"
  using updateState_emergencies_prefix [of d s s' fx] deliver_emergencies_prefix [of s ms] by simp

theorem incidents_never_removed_witness:
  "updateState (DObject (incident ''emergency_end'' ''inc-1'' 7))
     (initial \<lparr> emergencies := [incident ''emergency_start'' ''inc-1'' 5] \<rparr>)
   = Inr (initial \<lparr> emergencies := [incident ''emergency_start'' ''inc-1'' 5] \<rparr>, [])
   \<and> prefix [incident ''emergency_start'' ''inc-1'' 5]
        (emergencies (fst (deliver [received (incident ''emergency_end'' ''inc-1'' 7),
                                    received (incident ''emergency_start'' ''inc-1'' 3)]
                            (initial \<lparr> emergencies := [incident ''emergency_start'' ''inc-1'' 5] \<rparr>))))"
  using incidents_never_removed
    [of "incident ''emergency_end'' ''inc-1'' 7"
        "initial \<lparr> emergencies := [incident ''emergency_start'' ''inc-1'' 5] \<rparr>"
        "DObject (incident ''emergency_end'' ''inc-1'' 7)"
        "initial \<lparr> emergencies := [incident ''emergency_start'' ''inc-1'' 5] \<rparr>" "[]"
        "[received (incident ''emergency_end'' ''inc-1'' 7), received (incident ''emergency_start'' ''inc-1'' 3)]"]
  by (simp add: incident_def getprop_def)

text \<open>
  C3 as the specification states it fails: after the start of incident \<^verbatim>\<open>inc-1\<close> and
  then its end, the entry of \<^verbatim>\<open>inc-1\<close> is still stored.
\<close>

theorem end_event_counterexample:
  "emergencies (fst (deliver [received (incident ''emergency_start'' ''inc-1'' 5),
                              received (incident ''emergency_end'' ''inc-1'' 7)] initial))
   = [incident ''emergency_start'' ''inc-1'' 5]"
  by (simp add: incident_def getprop_def ws_onmessage_def initial_def)

section \<open>The siren\<close>

text \<open>
  C4, as the code has it. Among the effects of any sequence of messages, the calls on the
  siren are one \<^verbatim>\<open>play\<close> for each \<^verbatim>\<open>emergency_start\<close> message, duplicates counted, and
  no \<^verbatim>\<open>stop\<close> at all.
\<close>

theorem siren_play_per_start:
  "filter (\<lambda>e. e = play sirenSound \<or> e = stop sirenSound) (snd (deliver ms s))
   = replicate (length (filter is_emergency_start ms)) (play sirenSound)"
proof (induction ms arbitrary: s)
  case Nil
  show ?case by simp
next
  case (Cons m ms)
  show ?case
    using snd_ws_onmessage_siren [of m s] Cons.IH [of "fst (ws_onmessage m s)"]
    by (simp add: split_beta)
qed

theorem siren_play_per_start_witness:
  "filter (\<lambda>e. e = play sirenSound \<or> e = stop sirenSound)
     (snd (deliver [received (incident ''emergency_start'' ''inc-1'' 5), Inl SyntaxError,
                    received (incident ''emergency_end'' ''inc-1'' 6),
                    received (incident ''emergency_start'' ''inc-2'' 7)] initial))
   = [play sirenSound, play sirenSound]"
  using siren_play_per_start
    [of "[received (incident ''emergency_start'' ''inc-1'' 5), Inl SyntaxError,
          received (incident ''emergency_end'' ''inc-1'' 6),
          received (incident ''emergency_start'' ''inc-2'' 7)]" initial]
  by (simp add: is_emergency_start_def incident_def getprop_def)

text \<open>
  C4 as the specification states it fails: the scenario start, start, end for \<^verbatim>\<open>inc-1\<close>
  has exactly these effects: the siren is played twice and stopped never.
\<close>

theorem duplicate_start_counterexample:
  "snd (deliver [received (incident ''emergency_start'' ''inc-1'' 5),
                 received (incident ''emergency_start'' ''inc-1'' 6),
                 received (incident ''emergency_end'' ''inc-1'' 7)] initial)
   = [play sirenSound, play sirenSound]"
  by (simp add: incident_def getprop_def ws_onmessage_def initial_def)

section \<open>Delivering a payload twice\<close>

text \<open>
  C5, as the code has it. Take a message that is not an \<^verbatim>\<open>emergency_start\<close> and whose
  identifier, when it is a \<^verbatim>\<open>vehicle_update\<close> or a \<^verbatim>\<open>traffic_light\<close>, is no array or
  object. When its payload is delivered twice in succession, each delivery parsed anew, the
  store is left as one delivery of that payload leaves it: as the second parse alone leaves
  it, whatever references the two parses hold, and, when no property of the payload is an
  array or object, as the first delivery left it.
\<close>

theorem redelivered_same_snapshot:
  assumes "\<not> is_emergency_start m" and "primitive_id m"
  shows "fst (ws_onmessage (reparse f m) (fst (ws_onmessage m s))) = fst (ws_onmessage (reparse f m) s)
       \<and> (primitive_payload m \<longrightarrow>
            fst (ws_onmessage (reparse f m) (fst (ws_onmessage m s))) = fst (ws_onmessage m s))"
proof -
  have a: "fst (ws_onmessage (reparse f m) (fst (ws_onmessage m s))) = fst (ws_onmessage (reparse f m) s)"
  proof (cases m)
    case (Inl e)
    then show ?thesis by (simp add: ws_onmessage_def)
  next
    case (Inr d)
    show ?thesis
    proof (cases d)
      case (DObject data)
      with Inr assms show ?thesis
        using redelivery_object [of data f s]
        by (simp add: is_emergency_start_def primitive_id_def)
    qed (simp_all add: Inr ws_onmessage_def)
  qed
  then show ?thesis by (auto simp: reparse_primitive_payload)
qed

text \<open>
  The theorem at a vehicle upsert with the numeric identifier 7 that carries an array
  \<^verbatim>\<open>route\<close>, parsed to reference 3 and then to reference 4: one vehicle is stored.
\<close>

theorem redelivered_same_snapshot_witness:
  "fst (ws_onmessage
          (reparse Suc (received [(''type'', JStr ''vehicle_update''), (''id'', JNum 7), (''lat'', JNum 1),
                                  (''lng'', JNum 2), (''speed'', JNum 12), (''route'', JRef 3)]))
          (fst (ws_onmessage
                 (received [(''type'', JStr ''vehicle_update''), (''id'', JNum 7), (''lat'', JNum 1),
                            (''lng'', JNum 2), (''speed'', JNum 12), (''route'', JRef 3)])
                 initial)))
   = initial \<lparr> vehicles := [\<lparr> vid = JNum 7, position = (JNum 1, JNum 2), speed = JNum 12, vtype = ''normal'' \<rparr>] \<rparr>"
  using redelivered_same_snapshot
    [of "received [(''type'', JStr ''vehicle_update''), (''id'', JNum 7), (''lat'', JNum 1),
                   (''lng'', JNum 2), (''speed'', JNum 12), (''route'', JRef 3)]" Suc initial]
  by (simp add: is_emergency_start_def primitive_id_def getprop_def ws_onmessage_def initial_def)

text \<open>
  C5 as the specification states it fails twice over. An emergency start delivered once
  leaves one entry, delivered twice it leaves two. And a vehicle upsert whose identifier is
  an array (reference 1 in the first parse, reference 2 in the second) leaves one vehicle
  when delivered once and two when delivered twice, since the new array is not \<^verbatim>\<open>===\<close>
  the stored one.
\<close>

theorem redelivered_twice_counterexample:
  "emergencies (fst (ws_onmessage (received (incident ''emergency_start'' ''inc-1'' 5)) initial))
     = [incident ''emergency_start'' ''inc-1'' 5]
   \<and> emergencies (fst (ws_onmessage (reparse Suc (received (incident ''emergency_start'' ''inc-1'' 5)))
        (fst (ws_onmessage (received (incident ''emergency_start'' ''inc-1'' 5)) initial))))
     = [incident ''emergency_start'' ''inc-1'' 5, incident ''emergency_start'' ''inc-1'' 5]
   \<and> map vid (vehicles (fst (ws_onmessage (received [(''type'', JStr ''vehicle_update''), (''id'', JRef 1)]) initial)))
     = [JRef 1]
   \<and> map vid (vehicles (fst (ws_onmessage
        (reparse Suc (received [(''type'', JStr ''vehicle_update''), (''id'', JRef 1)]))
        (fst (ws_onmessage (received [(''type'', JStr ''vehicle_update''), (''id'', JRef 1)]) initial)))))
     = [JRef 1, JRef 2]"
  by (simp add: incident_def getprop_def ws_onmessage_def initial_def)

section \<open>Unrecognised and malformed messages\<close>




text \<open>
  C7. When \<^verbatim>\<open>JSON.parse\<close> throws on the payload, each handler catches the error, logs its
  diagnostic and returns with the store as it was; the messages after it are handled as usual.
\<close>

theorem malformed_payload_dropped:
  "ws_onmessage (Inl SyntaxError) s = (s, [console_error ''Invalid message format:''])
   \<and> useWebSocket_onmessage (Inl SyntaxError) s = (s, [console_error ''WebSocket message error:''])
   \<and> deliver (Inl SyntaxError # ms) s
       = (fst (deliver ms s), console_error ''Invalid message format:'' # snd (deliver ms s))"
  by (simp add: ws_onmessage_def useWebSocket_onmessage_def split_beta)

theorem malformed_payload_dropped_witness:
  "deliver [Inl SyntaxError, received (upsert 7 (0, 0) 10 1)] initial
   = (initial \<lparr> vehicles := [\<lparr> vid = JNum 7, position = (JNum 0, JNum 0), speed = JNum 10, vtype = ''normal'' \<rparr>] \<rparr>,
      [console_error ''Invalid message format:''])"
  using malformed_payload_dropped [of initial "[received (upsert 7 (0, 0) 10 1)]"]
  by (simp add: upsert_def getprop_def ws_onmessage_def initial_def)

section \<open>Traffic lights are never created\<close>

text \<open>
  C9. A \<^verbatim>\<open>traffic_light\<close> event whose identifier is that of no stored light leaves the
  store as it was; no action changes the number of stored lights; and in every reachable
  state the list of traffic lights is empty.
\<close>

theorem traffic_light_never_creates:
  "(getprop data ''type'' = JStr ''traffic_light''
      \<and> (\<forall>light \<in> set (trafficLights s). getprop light ''id'' \<noteq> getprop data ''id'')
      \<longrightarrow> updateState (DObject data) s = Inr (s, []))
   \<and> length (trafficLights (step a s)) = length (trafficLights s)
   \<and> trafficLights (reach acts) = []"
  using traffic_light_no_match [of data s] step_lights_ids [of a s, THEN arg_cong, of length]
  by (simp add: reach_trafficLights del: step.simps)

theorem traffic_light_never_creates_witness:
  "updateState (DObject [(''type'', JStr ''traffic_light''), (''id'', JStr ''tl-2''), (''state'', JStr ''green'')])
     (initial \<lparr> trafficLights := [[(''id'', JStr ''tl-1''), (''state'', JStr ''red'')]] \<rparr>)
   = Inr (initial \<lparr> trafficLights := [[(''id'', JStr ''tl-1''), (''state'', JStr ''red'')]] \<rparr>, [])
   \<and> trafficLights (reach [UpdateState (DObject [(''type'', JStr ''traffic_light''), (''id'', JStr ''tl-2''), (''state'', JStr ''green'')]),
                            ToggleSimulation]) = []"
  using traffic_light_never_creates
    [of "[(''type'', JStr ''traffic_light''), (''id'', JStr ''tl-2''), (''state'', JStr ''green'')]"
        "initial \<lparr> trafficLights := [[(''id'', JStr ''tl-1''), (''state'', JStr ''red'')]] \<rparr>"
        ToggleSimulation
        "[UpdateState (DObject [(''type'', JStr ''traffic_light''), (''id'', JStr ''tl-2''), (''state'', JStr ''green'')]), ToggleSimulation]"]
  by (simp add: getprop_def)

section \<open>What an update leaves alone\<close>

text \<open>
  C10. A call of \<^verbatim>\<open>updateState\<close> that returns leaves \<^verbatim>\<open>congestion\<close>, \<^verbatim>\<open>avgSpeed\<close> and
  \<^verbatim>\<open>isSimulationActive\<close> as they were, and changes at most the collection of the event's
  tag: the new store is the old one with \<^verbatim>\<open>vehicles\<close> replaced for a \<^verbatim>\<open>vehicle_update\<close>,
  with \<^verbatim>\<open>trafficLights\<close> replaced for a \<^verbatim>\<open>traffic_light\<close>, with \<^verbatim>\<open>emergencies\<close> replaced
  for an \<^verbatim>\<open>emergency_start\<close>, and the old one itself for anything else.
\<close>

theorem updateState_frame:
  assumes "updateState d s = Inr (s', fx)"
  shows "congestion s' = congestion s \<and> avgSpeed s' = avgSpeed s
       \<and> isSimulationActive s' = isSimulationActive s
       \<and> (\<forall>data. d = DObject data \<longrightarrow>
            (getprop data ''type'' = JStr ''vehicle_update'' \<longrightarrow> s' = s\<lparr> vehicles := vehicles s' \<rparr>)
          \<and> (getprop data ''type'' = JStr ''traffic_light'' \<longrightarrow> s' = s\<lparr> trafficLights := trafficLights s' \<rparr>)
          \<and> (getprop data ''type'' = JStr ''emergency_start'' \<longrightarrow> s' = s\<lparr> emergencies := emergencies s' \<rparr>)
          \<and> (getprop data ''type'' \<notin> {JStr ''vehicle_update'', JStr ''traffic_light'', JStr ''emergency_start''}
               \<longrightarrow> s' = s))
       \<and> (d = DOther \<longrightarrow> s' = s)"
  using assms by (cases d) (auto split: if_splits)

theorem updateState_frame_witness:
  "updateState (DObject (upsert 7 (1, 1) 12 3)) initial
   = Inr (initial \<lparr> vehicles := [\<lparr> vid = JNum 7, position = (JNum 1, JNum 1), speed = JNum 12, vtype = ''normal'' \<rparr>] \<rparr>, [])
   \<and> congestion (initial \<lparr> vehicles := [\<lparr> vid = JNum 7, position = (JNum 1, JNum 1), speed = JNum 12, vtype = ''normal'' \<rparr>] \<rparr>) = 0
   \<and> avgSpeed (initial \<lparr> vehicles := [\<lparr> vid = JNum 7, position = (JNum 1, JNum 1), speed = JNum 12, vtype = ''normal'' \<rparr>] \<rparr>) = 45
   \<and> \<not> isSimulationActive (initial \<lparr> vehicles := [\<lparr> vid = JNum 7, position = (JNum 1, JNum 1), speed = JNum 12, vtype = ''normal'' \<rparr>] \<rparr>)"
proof -
  have h: "updateState (DObject (upsert 7 (1, 1) 12 3)) initial
   = Inr (initial \<lparr> vehicles := [\<lparr> vid = JNum 7, position = (JNum 1, JNum 1), speed = JNum 12, vtype = ''normal'' \<rparr>] \<rparr>, [])"
    by (simp add: upsert_def getprop_def initial_def)
  show ?thesis
    using h updateState_frame [OF h] by (simp add: initial_def)
qed

end
